theory Spec2Isabelle
  imports Main "HOL-Library.AList"
begin

section \<open>Strings, numbers and objects of the host language\<close>

text \<open>
  The program is a TypeScript module (\<^verbatim>\<open>src/app/page.tsx\<close>). Its strings are
  sequences of UTF-16 code units; they are modelled as lists of natural numbers, one per
  code unit, so that the Thai literals of the source can be written down exactly and so
  that \<^verbatim>\<open>trim\<close> sees the same white space as the host language.
  \<open>js\<close> embeds an ASCII literal.
\<close>

type_synonym jsstring = "nat list"

definition js :: "string \<Rightarrow> jsstring" where
  "js s = map of_char s"

text \<open>
  The white space and line terminator code units that \<^verbatim>\<open>String.prototype.trim\<close>
  removes: TAB, LF, VT, FF, CR, SP, NBSP, U+1680, U+2000 to U+200A, U+2028, U+2029,
  U+202F, U+205F, U+3000 and U+FEFF.
\<close>

definition isWhiteSpace :: "nat \<Rightarrow> bool" where
  "isWhiteSpace c =
     (c = 9 \<or> c = 10 \<or> c = 11 \<or> c = 12 \<or> c = 13 \<or> c = 32 \<or> c = 160 \<or> c = 5760
      \<or> (8192 \<le> c \<and> c \<le> 8202) \<or> c = 8232 \<or> c = 8233 \<or> c = 8239 \<or> c = 8287
      \<or> c = 12288 \<or> c = 65279)"

definition trim :: "jsstring \<Rightarrow> jsstring" where
  "trim s = rev (dropWhile isWhiteSpace (rev (dropWhile isWhiteSpace s)))"

text \<open>
  \<^verbatim>\<open>String(n)\<close> for an integer \<open>n\<close> (decimal digits, a minus sign for a negative
  number; the exponent notation the host language switches to from \<open>10^21\<close> on is not
  modelled), and \<^verbatim>\<open>padStart(2, '0')\<close>.
\<close>

function digits :: "nat \<Rightarrow> jsstring" where
  "digits n = (if n < 10 then [48 + n] else digits (n div 10) @ [48 + n mod 10])"
  by pat_completeness auto
termination
  by (relation "measure (\<lambda>n. n)") auto

declare digits.simps [simp del]

definition numberToString :: "int \<Rightarrow> jsstring" where
  "numberToString n = (if n < 0 then 45 # digits (nat (- n)) else digits (nat n))"

definition padStart2 :: "jsstring \<Rightarrow> jsstring" where
  "padStart2 s = (if length s < 2 then replicate (2 - length s) 48 @ s else s)"

text \<open>
  An object used as a dictionary is the list of its own entries in the order the host
  language enumerates them (\<^verbatim>\<open>Object.keys\<close>, \<^verbatim>\<open>Object.entries\<close>): reading a key
  is \<open>map_of\<close>, assigning is \<open>AList.update\<close> (an existing key keeps its place, a new
  key goes to the end) and \<^verbatim>\<open>delete\<close> is \<open>AList.delete\<close>. Properties inherited
  from the prototype are not modelled.
\<close>

text \<open>Reading an array at an index: \<^verbatim>\<open>undefined\<close> out of range.\<close>

definition at_index :: "'a list \<Rightarrow> nat \<Rightarrow> 'a option" where
  "at_index xs i = (if i < length xs then Some (xs ! i) else None)"

section \<open>The literals of the source\<close>

text \<open>
  The shift tags of \<^verbatim>\<open>BaseShiftString\<close>, given by their code points: morning
  (U+0E40 U+0E0A U+0E49 U+0E32), afternoon, day off, leave, sick and clinic closed; the
  empty tag is the empty string \<open>[]\<close>.
\<close>

definition th_morning :: jsstring where
  "th_morning = [0xE40, 0xE0A, 0xE49, 0xE32]"

definition th_afternoon :: jsstring where
  "th_afternoon = [0xE1A, 0xE48, 0xE32, 0xE22]"

definition th_dayoff :: jsstring where
  "th_dayoff = [0xE2B, 0xE22, 0xE38, 0xE14]"

definition th_leave :: jsstring where
  "th_leave = [0xE25, 0xE32]"

definition th_sick :: jsstring where
  "th_sick = [0xE1B, 0xE48, 0xE27, 0xE22]"

definition th_closed :: jsstring where
  "th_closed = [0xE1B, 0xE34, 0xE14]"

text \<open>The "none" sentinel of the clinic day off and the branch of the part-time pool.\<close>

definition th_none :: jsstring where
  "th_none = [0xE44, 0xE21, 0xE48, 0xE21, 0xE35]"

definition th_parttime :: jsstring where
  "th_parttime = [0xE1E, 0xE32, 0xE23, 0xE4C, 0xE17, 0xE44, 0xE17, 0xE21, 0xE4C]"

text \<open>\<^verbatim>\<open>dayNames\<close>: Sunday to Saturday, then the "none" sentinel at index 7.\<close>

definition dayNames :: "jsstring list" where
  "dayNames =
     [ [0xE2D, 0xE32, 0xE17, 0xE34, 0xE15, 0xE22, 0xE4C],
       [0xE08, 0xE31, 0xE19, 0xE17, 0xE23, 0xE4C],
       [0xE2D, 0xE31, 0xE07, 0xE04, 0xE32, 0xE23],
       [0xE1E, 0xE38, 0xE18],
       [0xE1E, 0xE24, 0xE2B, 0xE31, 0xE2A, 0xE1A, 0xE14, 0xE35],
       [0xE28, 0xE38, 0xE01, 0xE23, 0xE4C],
       [0xE40, 0xE2A, 0xE32, 0xE23, 0xE4C],
       [0xE44, 0xE21, 0xE48, 0xE21, 0xE35] ]"

text \<open>\<^verbatim>\<open>initialBranches\<close>: the ten branch names the application starts with.\<close>

definition initialBranches :: "jsstring list" where
  "initialBranches =
     [ [0xE1A, 0xE36, 0xE07, 0xE17, 0xE31, 0xE1A, 0xE0A, 0xE49, 0xE32, 0xE07],
       [0xE1A, 0xE31, 0xE27, 0xE43, 0xE2B, 0xE0D, 0xE48],
       [0xE42, 0xE19, 0xE19, 0xE2A, 0xE39, 0xE07],
       [0xE02, 0xE32, 0xE21, 0xE2A, 0xE30, 0xE41, 0xE01, 0xE41, 0xE2A, 0xE07],
       [0xE2B, 0xE19, 0xE2D, 0xE07, 0xE44, 0xE02, 0xE48, 0xE19, 0xE49, 0xE33],
       [0xE1E, 0xE19, 0xE21, 0xE27, 0xE31, 0xE19, 0xE17, 0xE4C],
       [0xE27, 0xE31, 0xE07, 0xE19, 0xE49, 0xE33, 0xE40, 0xE02, 0xE35, 0xE22, 0xE27],
       [0xE40, 0xE04, 0xE2B, 0xE30],
       [0xE42, 0xE19, 0xE19, 0xE44, 0xE17, 0xE22],
       [0xE08, 0xE31, 0xE01, 0xE23, 0xE32, 0xE0A] ]"

section \<open>Data model\<close>

text \<open>
  \<^verbatim>\<open>interface Employee\<close>; the fields carry the prefix \<open>emp_\<close> (\<open>id\<close> is taken in
  HOL, and the draft of the add form has fields of the same names). The draft,
  \<^verbatim>\<open>Omit<Employee, 'id'>\<close>, has the prefix \<open>new_\<close>.
\<close>

datatype EmployeeType = FullTime | PartTime

record Employee =
  emp_id :: jsstring
  emp_name :: jsstring
  emp_position :: jsstring
  emp_branch :: jsstring
  emp_type :: EmployeeType

record NewEmployee =
  new_name :: jsstring
  new_position :: jsstring
  new_branch :: jsstring
  new_type :: EmployeeType

text \<open>
  \<^verbatim>\<open>type ShiftEntry = BaseShiftString | WorkingShiftObject\<close>: a string, or an object
  with the fields \<^verbatim>\<open>type\<close> and \<^verbatim>\<open>branch\<close>. The source casts whatever string it is
  given to \<^verbatim>\<open>BaseShiftString\<close>, so both carry arbitrary strings here.
\<close>

datatype ShiftEntry =
    BaseShift jsstring
  | WorkingShift (shift_type: jsstring) (shift_branch: jsstring)

text \<open>The type guard, on a value that may be \<^verbatim>\<open>undefined\<close>.\<close>

fun isWorkingShiftObject :: "ShiftEntry option \<Rightarrow> bool" where
  "isWorkingShiftObject (Some (WorkingShift t b)) = True"
| "isWorkingShiftObject _ = False"

type_synonym MonthlySchedule = "(jsstring \<times> (jsstring \<times> ShiftEntry) list) list"

text \<open>
  The modal. A closed modal shows nothing, so the state of the modal is \<open>None\<close> when it
  is closed and otherwise the prompt it shows. Each prompt stands for one title and one
  message template of the source and carries the strings the template interpolates;
  only \<open>DeleteConfirm\<close> has a cancel button, and its confirm button deletes the employee
  whose id it carries. The confirm button of the three alerts only closes the modal.
\<close>

datatype Prompt =
    ClinicDayOffAlert jsstring
  | PartTimeAlert jsstring jsstring
  | IncompleteAlert
  | DeleteConfirm jsstring

text \<open>
  The state of the component \<^verbatim>\<open>App\<close>: one field per \<^verbatim>\<open>useState\<close>, with
  \<^verbatim>\<open>currentDate\<close> kept as the year and the zero-based month the source reads from it.
\<close>

record App =
  employees :: "Employee list"
  branches :: "jsstring list"
  monthlySchedule :: MonthlySchedule
  currentYear :: int
  currentMonth :: nat
  selectedBranch :: jsstring
  editingEmployeeId :: "jsstring option"
  editedEmployee :: Employee
  newEmployee :: NewEmployee
  modal :: "Prompt option"
  clinicDayOff :: jsstring

text \<open>
  \<^verbatim>\<open>new Date(year, month, day).getDay()\<close> belongs to the platform. Every operation
  that needs it takes it as its first argument \<open>getDay\<close>, a function from the year, the
  zero-based month and the day of the month to the index of the weekday.
\<close>

type_synonym weekday_fun = "int \<Rightarrow> nat \<Rightarrow> nat \<Rightarrow> nat"

section \<open>Operations on the schedule\<close>

definition dateKeyOf :: "int \<Rightarrow> nat \<Rightarrow> nat \<Rightarrow> jsstring" where
  "dateKeyOf year month day =
     numberToString year @ [45] @ padStart2 (numberToString (int (month + 1)))
       @ [45] @ padStart2 (numberToString (int day))"

definition isClinicDayOffCell :: "weekday_fun \<Rightarrow> App \<Rightarrow> nat \<Rightarrow> bool" where
  "isClinicDayOffCell getDay st day =
     (let dayOfWeek = getDay (currentYear st) (currentMonth st) day
      in at_index dayNames dayOfWeek = Some (clinicDayOff st) \<and> clinicDayOff st \<noteq> th_none)"

text \<open>\<^verbatim>\<open>schedule[dateKey]?.[employeeId]\<close>\<close>

definition lookupShift :: "MonthlySchedule \<Rightarrow> jsstring \<Rightarrow> jsstring \<Rightarrow> ShiftEntry option" where
  "lookupShift schedule dateKey employeeId =
     (case map_of schedule dateKey of
        None \<Rightarrow> None
      | Some inner \<Rightarrow> map_of inner employeeId)"

text \<open>\<^verbatim>\<open>if (!newSchedule[dateKey]) newSchedule[dateKey] = {}\<close>\<close>

definition ensureDate :: "MonthlySchedule \<Rightarrow> jsstring \<Rightarrow> MonthlySchedule" where
  "ensureDate schedule dateKey =
     (case map_of schedule dateKey of
        None \<Rightarrow> AList.update dateKey [] schedule
      | Some inner \<Rightarrow> schedule)"

text \<open>
  \<^verbatim>\<open>newSchedule[dateKey][employeeId] = entry\<close>, on a schedule that has the date.
  (Without the date the source would raise; both callers run \<open>ensureDate\<close> first, and
  the model leaves the schedule as it is.)
\<close>

definition setShiftEntry ::
  "MonthlySchedule \<Rightarrow> jsstring \<Rightarrow> jsstring \<Rightarrow> ShiftEntry \<Rightarrow> MonthlySchedule" where
  "setShiftEntry schedule dateKey employeeId entry =
     (case map_of schedule dateKey of
        None \<Rightarrow> schedule
      | Some inner \<Rightarrow> AList.update dateKey (AList.update employeeId entry inner) schedule)"

text \<open>
  The loop over \<^verbatim>\<open>branches\<close> in \<^verbatim>\<open>handleShiftChange\<close>. It skips the selected branch
  and, for every other branch, reads the entry of the employee on the date and blocks
  when that entry is a working shift object. The result is the branch named by that
  entry (the one the message shows) when the loop blocks, and \<open>None\<close> when it runs to
  its end.
\<close>

fun scanOtherBranches ::
  "jsstring list \<Rightarrow> jsstring \<Rightarrow> MonthlySchedule \<Rightarrow> jsstring \<Rightarrow> jsstring \<Rightarrow> jsstring option" where
  "scanOtherBranches [] selected schedule dateKey employeeId = None"
| "scanOtherBranches (branch # rest) selected schedule dateKey employeeId =
     (if branch = selected then scanOtherBranches rest selected schedule dateKey employeeId
      else
        (case lookupShift schedule dateKey employeeId of
           Some (WorkingShift t b) \<Rightarrow> Some b
         | _ \<Rightarrow> scanOtherBranches rest selected schedule dateKey employeeId))"

text \<open>
  \<^verbatim>\<open>handleShiftChange\<close>, with the updater it passes to \<^verbatim>\<open>setMonthlySchedule\<close>
  run on the current schedule. The clinic day off alert interpolates
  \<^verbatim>\<open>dayNames[dayOfWeek]\<close>, which is in range whenever the gate applies.
\<close>

definition handleShiftChange :: "weekday_fun \<Rightarrow> jsstring \<Rightarrow> nat \<Rightarrow> jsstring \<Rightarrow> App \<Rightarrow> App" where
  "handleShiftChange getDay employeeId day val st =
     (case find (\<lambda>e. emp_id e = employeeId) (employees st) of
        None \<Rightarrow> st
      | Some employee \<Rightarrow>
          let dateKey = dateKeyOf (currentYear st) (currentMonth st) day;
              dayOfWeek = getDay (currentYear st) (currentMonth st) day;
              prevSchedule = monthlySchedule st;
              newSchedule = ensureDate prevSchedule dateKey
          in
            if isClinicDayOffCell getDay st day then
              (if val \<noteq> th_closed
               then st\<lparr>modal := Some (ClinicDayOffAlert (dayNames ! dayOfWeek))\<rparr>
               else st\<lparr>monthlySchedule :=
                         setShiftEntry newSchedule dateKey employeeId (BaseShift th_closed)\<rparr>)
            else if emp_type employee = PartTime then
              (if val = th_morning \<or> val = th_afternoon then
                 (case scanOtherBranches (branches st) (selectedBranch st)
                         (monthlySchedule st) dateKey (emp_id employee) of
                    Some otherBranch \<Rightarrow>
                      st\<lparr>modal := Some (PartTimeAlert otherBranch (selectedBranch st))\<rparr>
                  | None \<Rightarrow>
                      st\<lparr>monthlySchedule :=
                           setShiftEntry newSchedule dateKey employeeId
                             (WorkingShift val (selectedBranch st))\<rparr>)
               else
                 st\<lparr>monthlySchedule :=
                      setShiftEntry newSchedule dateKey employeeId (BaseShift val)\<rparr>)
            else
              st\<lparr>monthlySchedule :=
                   setShiftEntry newSchedule dateKey employeeId (BaseShift val)\<rparr>)"

definition getShiftValue :: "weekday_fun \<Rightarrow> App \<Rightarrow> jsstring \<Rightarrow> nat \<Rightarrow> jsstring" where
  "getShiftValue getDay st employeeId day =
     (case find (\<lambda>e. emp_id e = employeeId) (employees st) of
        None \<Rightarrow> []
      | Some employee \<Rightarrow>
          let dateKey = dateKeyOf (currentYear st) (currentMonth st) day
          in
            if isClinicDayOffCell getDay st day then th_closed
            else
              (let shiftEntry = lookupShift (monthlySchedule st) dateKey (emp_id employee)
               in
                 if emp_type employee = FullTime then
                   (case shiftEntry of Some (BaseShift s) \<Rightarrow> s | _ \<Rightarrow> [])
                 else
                   (case shiftEntry of
                      Some (WorkingShift t b) \<Rightarrow> (if b = selectedBranch st then t else [])
                    | Some (BaseShift s) \<Rightarrow> s
                    | None \<Rightarrow> [])))"

section \<open>Operations on the roster\<close>

text \<open>
  \<^verbatim>\<open>handleAddEmployee\<close> reads the draft \<^verbatim>\<open>newEmployee\<close> from the state. A string
  is truthy when it is not empty.
\<close>

definition handleAddEmployee :: "App \<Rightarrow> App" where
  "handleAddEmployee st =
     (let draft = newEmployee st
      in
        if trim (new_name draft) \<noteq> [] \<and> trim (new_position draft) \<noteq> []
           \<and> (new_type draft = PartTime \<or> trim (new_branch draft) \<noteq> [])
        then
          (let idPrefix = (if new_type draft = FullTime then js ''emp'' else js ''pte'');
               newId = idPrefix @ numberToString
                         (int (length (filter (\<lambda>e. emp_type e = new_type draft) (employees st)) + 1))
           in st\<lparr>employees := employees st @
                      [\<lparr>emp_id = newId,
                        emp_name = new_name draft,
                        emp_position = new_position draft,
                        emp_branch = (if new_type draft = PartTime then th_parttime
                                      else new_branch draft),
                        emp_type = new_type draft\<rparr>],
                  newEmployee := \<lparr>new_name = [], new_position = [],
                                   new_branch = initialBranches ! 0, new_type = FullTime\<rparr>\<rparr>)
        else st\<lparr>modal := Some IncompleteAlert\<rparr>)"

text \<open>\<^verbatim>\<open>handleDeleteEmployee\<close> only opens the confirmation.\<close>

definition handleDeleteEmployee :: "jsstring \<Rightarrow> App \<Rightarrow> App" where
  "handleDeleteEmployee employeeId st = st\<lparr>modal := Some (DeleteConfirm employeeId)\<rparr>"

text \<open>
  The body of the \<^verbatim>\<open>forEach\<close> over \<^verbatim>\<open>Object.keys(newSchedule)\<close> in the confirm
  handler of the deletion, for one date key, and the whole clean-up.
\<close>

definition removeEmployeeAt :: "jsstring \<Rightarrow> jsstring \<Rightarrow> MonthlySchedule \<Rightarrow> MonthlySchedule" where
  "removeEmployeeAt employeeId dateKey newSchedule =
     (case map_of newSchedule dateKey of
        None \<Rightarrow> newSchedule
      | Some inner \<Rightarrow>
          (let inner' = AList.delete employeeId inner
           in if length (map fst inner') = 0 then AList.delete dateKey newSchedule
              else AList.update dateKey inner' newSchedule))"

definition cleanUpSchedule :: "jsstring \<Rightarrow> MonthlySchedule \<Rightarrow> MonthlySchedule" where
  "cleanUpSchedule employeeId prevSchedule =
     fold (removeEmployeeAt employeeId) (map fst prevSchedule) prevSchedule"

text \<open>The confirm and the cancel button of the modal.\<close>

definition onConfirm :: "App \<Rightarrow> App" where
  "onConfirm st =
     (case modal st of
        None \<Rightarrow> st
      | Some (DeleteConfirm employeeId) \<Rightarrow>
          st\<lparr>employees := filter (\<lambda>emp. emp_id emp \<noteq> employeeId) (employees st),
             monthlySchedule := cleanUpSchedule employeeId (monthlySchedule st),
             modal := None\<rparr>
      | Some _ \<Rightarrow> st\<lparr>modal := None\<rparr>)"

definition onCancel :: "App \<Rightarrow> App" where
  "onCancel st =
     (case modal st of
        Some (DeleteConfirm employeeId) \<Rightarrow> st\<lparr>modal := None\<rparr>
      | _ \<Rightarrow> st)"

definition startEditEmployee :: "Employee \<Rightarrow> App \<Rightarrow> App" where
  "startEditEmployee employee st =
     st\<lparr>editingEmployeeId := Some (emp_id employee), editedEmployee := employee\<rparr>"

definition saveEditEmployee :: "App \<Rightarrow> App" where
  "saveEditEmployee st =
     st\<lparr>employees :=
          map (\<lambda>emp. if Some (emp_id emp) = editingEmployeeId st
                      then (editedEmployee st)\<lparr>emp_branch :=
                              (if emp_type (editedEmployee st) = PartTime then th_parttime
                               else emp_branch (editedEmployee st))\<rparr>
                      else emp)
              (employees st),
        editingEmployeeId := None\<rparr>"

section \<open>View projection\<close>

definition displayedEmployees :: "App \<Rightarrow> Employee list" where
  "displayedEmployees st =
     filter (\<lambda>employee. emp_type employee = PartTime \<or> emp_branch employee = selectedBranch st)
       (employees st)"

text \<open>Whether the callback of \<^verbatim>\<open>getDailyStaffCount\<close> increments the count at an employee.\<close>

definition countsAsStaff :: "weekday_fun \<Rightarrow> App \<Rightarrow> nat \<Rightarrow> Employee \<Rightarrow> bool" where
  "countsAsStaff getDay st day employee =
     (let dateKey = dateKeyOf (currentYear st) (currentMonth st) day;
          shiftEntry = lookupShift (monthlySchedule st) dateKey (emp_id employee)
      in
        if isClinicDayOffCell getDay st day then False
        else if emp_type employee = FullTime then
          (if emp_branch employee = selectedBranch st then
             (case shiftEntry of
                Some (BaseShift s) \<Rightarrow> s = th_morning \<or> s = th_afternoon
              | _ \<Rightarrow> False)
           else False)
        else
          (case shiftEntry of
             Some (WorkingShift t b) \<Rightarrow>
               b = selectedBranch st \<and> (t = th_morning \<or> t = th_afternoon)
           | _ \<Rightarrow> False))"

definition getDailyStaffCount :: "weekday_fun \<Rightarrow> App \<Rightarrow> nat \<Rightarrow> nat" where
  "getDailyStaffCount getDay st day =
     fold (\<lambda>employee count. if countsAsStaff getDay st day employee then count + 1 else count)
       (employees st) 0"

section \<open>Loading the persisted document\<close>

text \<open>
  A document of the collection, as far as the loader reads it: \<^verbatim>\<open>employees\<close>
  (\<open>None\<close> when it is not an array), \<^verbatim>\<open>schedule\<close> (\<open>None\<close> when it is missing;
  otherwise its entries, employee id to day key to shift entry, in enumeration order)
  and \<^verbatim>\<open>date\<close>.
\<close>

record ScheduleDoc =
  doc_employees :: "Employee list option"
  doc_schedule :: "(jsstring \<times> (jsstring \<times> ShiftEntry) list) list option"
  doc_date :: jsstring

text \<open>The two nested \<^verbatim>\<open>forEach\<close> iterations that fill \<^verbatim>\<open>scheduleMap\<close>.\<close>

definition decodeDays ::
  "jsstring \<Rightarrow> jsstring \<Rightarrow> (jsstring \<times> ShiftEntry) list \<Rightarrow> MonthlySchedule \<Rightarrow> MonthlySchedule" where
  "decodeDays date empId days scheduleMap =
     fold (\<lambda>(day, shift) m. setShiftEntry (ensureDate m date) date empId shift) days scheduleMap"

definition decodeSchedule ::
  "jsstring \<Rightarrow> (jsstring \<times> (jsstring \<times> ShiftEntry) list) list \<Rightarrow> MonthlySchedule" where
  "decodeSchedule date entries =
     fold (\<lambda>(empId, days) scheduleMap. decodeDays date empId days scheduleMap) entries []"

definition loadScheduleFromFirestore :: "ScheduleDoc list \<Rightarrow> App \<Rightarrow> App" where
  "loadScheduleFromFirestore schedules st =
     (case schedules of
        [] \<Rightarrow> st
      | latest # others \<Rightarrow>
          st\<lparr>employees := (case doc_employees latest of Some es \<Rightarrow> es | None \<Rightarrow> []),
             monthlySchedule :=
               (case doc_schedule latest of
                  None \<Rightarrow> []
                | Some entries \<Rightarrow> decodeSchedule (doc_date latest) entries)\<rparr>)"

section \<open>The states the application reaches\<close>

text \<open>
  The state after the first render, in the month \<open>year\<close>, \<open>month\<close> of the clock:
  no employees, an empty schedule, the first branch selected and Sunday as the clinic
  day off.
\<close>

definition initialApp :: "int \<Rightarrow> nat \<Rightarrow> App" where
  "initialApp year month =
     \<lparr>employees = [],
      branches = initialBranches,
      monthlySchedule = [],
      currentYear = year,
      currentMonth = month,
      selectedBranch = initialBranches ! 0,
      editingEmployeeId = None,
      editedEmployee = \<lparr>emp_id = [], emp_name = [], emp_position = [], emp_branch = [],
                         emp_type = FullTime\<rparr>,
      newEmployee = \<lparr>new_name = [], new_position = [], new_branch = initialBranches ! 0,
                      new_type = FullTime\<rparr>,
      modal = None,
      clinicDayOff = dayNames ! 0\<rparr>"

text \<open>
  The user's actions. The setters of the form fields and of the selections take any
  value, which is more than the controls of the page offer; \<open>SetCurrentDate\<close> stands for
  \<^verbatim>\<open>changeMonth\<close> and may move to any month.
\<close>

datatype Action =
    Load "ScheduleDoc list"
  | ShiftChange jsstring nat jsstring
  | SetNewEmployee NewEmployee
  | AddEmployee
  | DeleteEmployee jsstring
  | Confirm
  | Cancel
  | StartEdit Employee
  | SetEditedEmployee Employee
  | CancelEdit
  | SaveEdit
  | SetCurrentDate int nat
  | SetSelectedBranch jsstring
  | SetClinicDayOff jsstring

fun step :: "weekday_fun \<Rightarrow> Action \<Rightarrow> App \<Rightarrow> App" where
  "step getDay (Load schedules) st = loadScheduleFromFirestore schedules st"
| "step getDay (ShiftChange employeeId day val) st = handleShiftChange getDay employeeId day val st"
| "step getDay (SetNewEmployee draft) st = st\<lparr>newEmployee := draft\<rparr>"
| "step getDay AddEmployee st = handleAddEmployee st"
| "step getDay (DeleteEmployee employeeId) st = handleDeleteEmployee employeeId st"
| "step getDay Confirm st = onConfirm st"
| "step getDay Cancel st = onCancel st"
| "step getDay (StartEdit employee) st = startEditEmployee employee st"
| "step getDay (SetEditedEmployee employee) st = st\<lparr>editedEmployee := employee\<rparr>"
| "step getDay CancelEdit st = st\<lparr>editingEmployeeId := None\<rparr>"
| "step getDay SaveEdit st = saveEditEmployee st"
| "step getDay (SetCurrentDate year month) st = st\<lparr>currentYear := year, currentMonth := month\<rparr>"
| "step getDay (SetSelectedBranch branch) st = st\<lparr>selectedBranch := branch\<rparr>"
| "step getDay (SetClinicDayOff dayName) st = st\<lparr>clinicDayOff := dayName\<rparr>"

inductive reachable :: "weekday_fun \<Rightarrow> App \<Rightarrow> bool" for getDay :: weekday_fun where
  reachable_initial: "reachable getDay (initialApp year month)"
| reachable_step: "reachable getDay st \<Longrightarrow> reachable getDay (step getDay action st)"

section \<open>Notions used in the statements\<close>

text \<open>Running a list of actions, first to last.\<close>

definition run :: "weekday_fun \<Rightarrow> Action list \<Rightarrow> App \<Rightarrow> App" where
  "run getDay actions st = fold (step getDay) actions st"

text \<open>The working states: morning and afternoon.\<close>

definition isWorkingState :: "jsstring \<Rightarrow> bool" where
  "isWorkingState s = (s = th_morning \<or> s = th_afternoon)"

text \<open>
  All the entries the schedule holds for an employee on a date, over every entry of the
  outer and of the inner list with these keys, and those of them that are working shift
  objects.
\<close>

definition storedEntries :: "MonthlySchedule \<Rightarrow> jsstring \<Rightarrow> jsstring \<Rightarrow> ShiftEntry list" where
  "storedEntries schedule dateKey employeeId =
     concat (map (\<lambda>(d, inner). if d = dateKey
                                then map snd (filter (\<lambda>(e, entry). e = employeeId) inner)
                                else [])
               schedule)"

definition workingAssignments :: "MonthlySchedule \<Rightarrow> jsstring \<Rightarrow> jsstring \<Rightarrow> ShiftEntry list" where
  "workingAssignments schedule dateKey employeeId =
     filter (\<lambda>entry. isWorkingShiftObject (Some entry)) (storedEntries schedule dateKey employeeId)"

text \<open>No key occurs twice, in the schedule or in the entries of one of its dates.\<close>

definition distinctKeys :: "MonthlySchedule \<Rightarrow> bool" where
  "distinctKeys schedule =
     (distinct (map fst schedule) \<and> (\<forall>(d, inner) \<in> set schedule. distinct (map fst inner)))"

text \<open>
  The daily headcount as the specification words it: the number of employees of the
  roster, of any type, whose effective shift in the viewed branch is a working state.
\<close>

definition effectiveHeadcount :: "weekday_fun \<Rightarrow> App \<Rightarrow> nat \<Rightarrow> nat" where
  "effectiveHeadcount getDay st day =
     length (filter (\<lambda>employee. isWorkingState (getShiftValue getDay st (emp_id employee) day))
               (employees st))"

text \<open>The same count over the employees the table of the viewed branch displays.\<close>

definition visibleHeadcount :: "weekday_fun \<Rightarrow> App \<Rightarrow> nat \<Rightarrow> nat" where
  "visibleHeadcount getDay st day =
     length (filter (\<lambda>employee. isWorkingState (getShiftValue getDay st (emp_id employee) day))
               (displayedEmployees st))"

text \<open>
  A part-time employee whose entry on the day is a bare morning or afternoon tag, which
  the data model excludes (a part-time employee on a working shift is stored as a working
  shift object).
\<close>

definition bareWorkingTagOfPartTimer :: "App \<Rightarrow> nat \<Rightarrow> Employee \<Rightarrow> bool" where
  "bareWorkingTagOfPartTimer st day employee =
     (emp_type employee = PartTime \<and>
      (case lookupShift (monthlySchedule st) (dateKeyOf (currentYear st) (currentMonth st) day)
              (emp_id employee) of
         Some (BaseShift s) \<Rightarrow> isWorkingState s
       | _ \<Rightarrow> False))"

section \<open>Example states\<close>

text \<open>
  The weekdays of June 2025, for the examples: the 1st is a Sunday (index 0), the 2nd a
  Monday.
\<close>

definition june2025 :: weekday_fun where
  "june2025 year month day = (day + 6) mod 7"

definition fullTimeDraft :: NewEmployee where
  "fullTimeDraft = \<lparr>new_name = js ''F'', new_position = js ''staff'',
                    new_branch = initialBranches ! 0, new_type = FullTime\<rparr>"

definition partTimeDraft :: NewEmployee where
  "partTimeDraft = \<lparr>new_name = js ''P'', new_position = js ''staff'',
                    new_branch = th_parttime, new_type = PartTime\<rparr>"

text \<open>
  June 2025 with a full-time employee of the first branch (id \<open>emp1\<close>) and a part-time
  employee (id \<open>pte1\<close>); the first branch is selected and Sunday is the clinic day off.
\<close>

definition staffed :: App where
  "staffed = run june2025 [SetNewEmployee fullTimeDraft, AddEmployee,
                           SetNewEmployee partTimeDraft, AddEmployee] (initialApp 2025 5)"

text \<open>Both of them then work the morning of Monday the 2nd in the first branch.\<close>

definition mondayBooked :: App where
  "mondayBooked = run june2025 [ShiftChange (js ''emp1'') 2 th_morning,
                                ShiftChange (js ''pte1'') 2 th_morning] staffed"

text \<open>Only the part-time employee works that morning.\<close>

definition partTimerBooked :: App where
  "partTimerBooked = run june2025 [ShiftChange (js ''pte1'') 2 th_morning] staffed"

text \<open>
  A persisted document with one employee and two days of schedule for that employee.
\<close>

definition exampleDoc :: ScheduleDoc where
  "exampleDoc =
     \<lparr>doc_employees =
        Some [\<lparr>emp_id = js ''emp1'', emp_name = js ''F'', emp_position = js ''staff'',
               emp_branch = initialBranches ! 0, emp_type = FullTime\<rparr>],
      doc_schedule =
        Some [(js ''emp1'', [(js ''2025-06-02'', BaseShift th_morning),
                            (js ''2025-06-03'', BaseShift th_leave)])],
      doc_date = js ''2025-06-02''\<rparr>"

section \<open>Auxiliary facts\<close>

lemmas eval_defs = run_def june2025_def fullTimeDraft_def partTimeDraft_def staffed_def
  mondayBooked_def partTimerBooked_def initialApp_def handleAddEmployee_def handleShiftChange_def Let_def
  isClinicDayOffCell_def at_index_def dayNames_def initialBranches_def th_none_def
  th_morning_def th_afternoon_def th_closed_def th_parttime_def th_leave_def th_sick_def th_dayoff_def
  js_def numberToString_def digits.simps padStart2_def dateKeyOf_def trim_def isWhiteSpace_def
  ensureDate_def setShiftEntry_def lookupShift_def getShiftValue_def

lemma lookupShift_setShiftEntry:
  "lookupShift (setShiftEntry (ensureDate s d) d e v) d' e' =
     (if d' = d \<and> e' = e then Some v else lookupShift s d' e')"
  by (auto simp: lookupShift_def setShiftEntry_def ensureDate_def update_conv' split: option.splits)

lemma find_id_None: "(find (\<lambda>e. emp_id e = i) es = None) = (i \<notin> emp_id ` set es)"
  by (auto simp: find_None_iff)

lemma find_id_Some: "i \<in> emp_id ` set es \<Longrightarrow> \<exists>e. find (\<lambda>e. emp_id e = i) es = Some e \<and> emp_id e = i"
  by (induction es) auto

lemma isClinicDayOffCell_upd [simp]:
  "isClinicDayOffCell getDay (st\<lparr>monthlySchedule := s\<rparr>) day = isClinicDayOffCell getDay st day"
  "isClinicDayOffCell getDay (st\<lparr>selectedBranch := b\<rparr>) day = isClinicDayOffCell getDay st day"
  "isClinicDayOffCell getDay (st\<lparr>modal := m\<rparr>) day = isClinicDayOffCell getDay st day"
  by (simp_all add: isClinicDayOffCell_def)

lemma map_of_removeEmployeeAt:
  "map_of (removeEmployeeAt i k s) d =
     (if d = k
      then (case map_of s k of
              None \<Rightarrow> None
            | Some inner \<Rightarrow> if AList.delete i inner = [] then None else Some (AList.delete i inner))
      else map_of s d)"
  by (auto simp: removeEmployeeAt_def Let_def update_conv' delete_conv' split: option.splits)

lemma map_of_fold_removeEmployeeAt:
  "map_of (fold (removeEmployeeAt i) ks s) d =
     (if d \<in> set ks
      then (case map_of s d of
              None \<Rightarrow> None
            | Some inner \<Rightarrow> if AList.delete i inner = [] then None else Some (AList.delete i inner))
      else map_of s d)"
proof (induction ks arbitrary: s)
  case Nil
  show ?case by simp
next
  case (Cons k ks)
  show ?case
    by (simp add: Cons.IH map_of_removeEmployeeAt delete_idem split: option.splits)
qed

lemma map_of_cleanUpSchedule:
  "map_of (cleanUpSchedule i s) d =
     (case map_of s d of
        None \<Rightarrow> None
      | Some inner \<Rightarrow> if AList.delete i inner = [] then None else Some (AList.delete i inner))"
proof (cases "d \<in> fst ` set s")
  case True
  then show ?thesis by (simp add: cleanUpSchedule_def map_of_fold_removeEmployeeAt)
next
  case False
  then have "map_of s d = None" by (simp add: map_of_eq_None_iff)
  with False show ?thesis by (simp add: cleanUpSchedule_def map_of_fold_removeEmployeeAt)
qed

lemma map_of_delete_Nil: "AList.delete i inner = [] \<Longrightarrow> e \<noteq> i \<Longrightarrow> map_of inner e = None"
proof -
  assume a: "AList.delete i inner = []" and b: "e \<noteq> i"
  have "map_of (AList.delete i inner) e = map_of inner e" using b by (simp add: delete_conv')
  with a show ?thesis by simp
qed

lemma lookupShift_cleanUpSchedule:
  "lookupShift (cleanUpSchedule i s) d e = (if e = i then None else lookupShift s d e)"
  by (auto simp: lookupShift_def map_of_cleanUpSchedule delete_conv' map_of_delete_Nil
           split: option.splits)

lemma set_update_cases:
  "(a, b) \<in> set (AList.update k v al) \<Longrightarrow> (a = k \<and> b = v) \<or> (a, b) \<in> set al"
  by (induction al) (auto split: if_splits)

lemma set_delete_subset: "set (AList.delete k al) \<subseteq> set al"
  by (auto simp: AList.delete_eq)

lemma distinctKeys_update:
  assumes "distinctKeys s" and "distinct (map fst inner)"
  shows "distinctKeys (AList.update d inner s)"
proof -
  have "distinct (map fst (AList.update d inner s))"
    using assms(1) by (simp add: distinctKeys_def distinct_update)
  moreover have "distinct (map fst b)" if "(a, b) \<in> set (AList.update d inner s)" for a b
    using set_update_cases [OF that] assms by (auto simp: distinctKeys_def)
  ultimately show ?thesis by (auto simp: distinctKeys_def)
qed

lemma distinctKeys_delete: "distinctKeys s \<Longrightarrow> distinctKeys (AList.delete d s)"
  unfolding distinctKeys_def
  using set_delete_subset [of d s] by (auto simp: distinct_delete)

lemma distinctKeys_lookup: "distinctKeys s \<Longrightarrow> map_of s d = Some inner \<Longrightarrow> distinct (map fst inner)"
  unfolding distinctKeys_def by (auto dest: map_of_SomeD)

lemma distinctKeys_ensureDate: "distinctKeys s \<Longrightarrow> distinctKeys (ensureDate s d)"
  by (auto simp: ensureDate_def distinctKeys_update split: option.splits)

lemma distinctKeys_setShiftEntry:
  assumes "distinctKeys s"
  shows "distinctKeys (setShiftEntry s d e v)"
proof (cases "map_of s d")
  case None
  with assms show ?thesis by (simp add: setShiftEntry_def)
next
  case (Some inner)
  then have "distinct (map fst (AList.update e v inner))"
    using distinctKeys_lookup [OF assms] by (simp add: distinct_update)
  with assms Some show ?thesis by (simp add: setShiftEntry_def distinctKeys_update)
qed

lemma distinctKeys_removeEmployeeAt:
  assumes "distinctKeys s"
  shows "distinctKeys (removeEmployeeAt i k s)"
proof (cases "map_of s k")
  case None
  with assms show ?thesis by (simp add: removeEmployeeAt_def)
next
  case (Some inner)
  then have "distinct (map fst (AList.delete i inner))"
    using distinctKeys_lookup [OF assms] by (simp add: distinct_delete)
  with assms Some show ?thesis
    by (simp add: removeEmployeeAt_def Let_def distinctKeys_update distinctKeys_delete)
qed

lemma distinctKeys_cleanUpSchedule: "distinctKeys s \<Longrightarrow> distinctKeys (cleanUpSchedule i s)"
proof -
  have "distinctKeys s \<Longrightarrow> distinctKeys (fold (removeEmployeeAt i) ks s)" for ks
    by (induction ks arbitrary: s) (simp_all add: distinctKeys_removeEmployeeAt)
  then show "distinctKeys s \<Longrightarrow> distinctKeys (cleanUpSchedule i s)"
    by (simp add: cleanUpSchedule_def)
qed

lemma distinctKeys_decodeDays: "distinctKeys m \<Longrightarrow> distinctKeys (decodeDays date empId days m)"
  unfolding decodeDays_def
  by (induction days arbitrary: m)
     (auto simp: distinctKeys_setShiftEntry distinctKeys_ensureDate)

lemma distinctKeys_decodeSchedule: "distinctKeys (decodeSchedule date entries)"
proof -
  have "distinctKeys m \<Longrightarrow>
        distinctKeys (fold (\<lambda>(empId, days) scheduleMap. decodeDays date empId days scheduleMap) entries m)"
    for m
    by (induction entries arbitrary: m) (auto simp: distinctKeys_decodeDays)
  moreover have "distinctKeys []" by (simp add: distinctKeys_def)
  ultimately show ?thesis by (simp add: decodeSchedule_def)
qed

lemma distinctKeys_handleShiftChange:
  "distinctKeys (monthlySchedule st) \<Longrightarrow>
   distinctKeys (monthlySchedule (handleShiftChange getDay employeeId day val st))"
  by (auto simp: handleShiftChange_def Let_def distinctKeys_setShiftEntry distinctKeys_ensureDate
           split: option.splits)

lemma distinctKeys_step:
  "distinctKeys (monthlySchedule st) \<Longrightarrow> distinctKeys (monthlySchedule (step getDay action st))"
proof (cases action)
  case (Load schedules)
  assume "distinctKeys (monthlySchedule st)"
  then show ?thesis
    using Load
    by (simp add: loadScheduleFromFirestore_def distinctKeys_decodeSchedule
             split: list.splits option.splits) (simp add: distinctKeys_def)
next
  case (ShiftChange employeeId day val)
  assume "distinctKeys (monthlySchedule st)"
  then show ?thesis using ShiftChange by (simp add: distinctKeys_handleShiftChange)
next
  case Confirm
  assume "distinctKeys (monthlySchedule st)"
  then show ?thesis
    using Confirm
    by (auto simp: onConfirm_def distinctKeys_cleanUpSchedule split: option.splits Prompt.splits)
qed (auto simp: handleAddEmployee_def Let_def handleDeleteEmployee_def onCancel_def
          startEditEmployee_def saveEditEmployee_def split: option.splits Prompt.splits)

lemma reachable_distinctKeys: "reachable getDay st \<Longrightarrow> distinctKeys (monthlySchedule st)"
proof (induction rule: reachable.induct)
  case (reachable_initial year month)
  show ?case by (simp add: initialApp_def distinctKeys_def)
next
  case (reachable_step st action)
  then show ?case by (simp add: distinctKeys_step)
qed

lemma filter_key_le_one:
  "distinct (map fst xs) \<Longrightarrow> length (filter (\<lambda>(k, v). k = a) xs) \<le> Suc 0"
proof (induction xs)
  case Nil
  show ?case by simp
next
  case (Cons x xs)
  obtain k v where x: "x = (k, v)" by (cases x)
  show ?case
  proof (cases "k = a")
    case True
    with Cons.prems x have "a \<notin> fst ` set xs" by simp
    then have "filter (\<lambda>(k, v). k = a) xs = []"
      by (force simp: filter_empty_conv)
    with True x show ?thesis by simp
  next
    case False
    with Cons x show ?thesis by simp
  qed
qed

lemma storedEntries_absent: "d \<notin> fst ` set s \<Longrightarrow> storedEntries s d e = []"
  by (induction s) (auto simp: storedEntries_def)

lemma storedEntries_le_one: "distinctKeys s \<Longrightarrow> length (storedEntries s d e) \<le> Suc 0"
proof (induction s)
  case Nil
  show ?case by (simp add: storedEntries_def)
next
  case (Cons x s)
  obtain k inner where x: "x = (k, inner)" by (cases x)
  from Cons.prems x have dk: "distinctKeys s" and kn: "k \<notin> fst ` set s"
    and di: "distinct (map fst inner)"
    by (auto simp: distinctKeys_def)
  have split: "storedEntries (x # s) d e =
      (if k = d then map snd (filter (\<lambda>(e', entry). e' = e) inner) else []) @ storedEntries s d e"
    by (simp add: storedEntries_def x)
  show ?case
  proof (cases "k = d")
    case True
    with kn have "storedEntries s d e = []" by (simp add: storedEntries_absent)
    with True split filter_key_le_one [OF di, of e] show ?thesis by simp
  next
    case False
    with split Cons.IH [OF dk] show ?thesis by simp
  qed
qed

lemma fold_count:
  "fold (\<lambda>x count. if P x then count + 1 else count) xs n = n + length (filter P xs)"
  by (induction xs arbitrary: n) auto

lemma getDailyStaffCount_filter:
  "getDailyStaffCount getDay st day = length (filter (countsAsStaff getDay st day) (employees st))"
  by (simp add: getDailyStaffCount_def fold_count)

lemma find_distinct_id:
  "distinct (map emp_id es) \<Longrightarrow> e \<in> set es \<Longrightarrow> find (\<lambda>x. emp_id x = emp_id e) es = Some e"
  by (induction es) auto

lemma isWorkingState_Nil [simp]: "\<not> isWorkingState []"
  by (simp add: isWorkingState_def th_morning_def th_afternoon_def)

lemma isWorkingState_closed [simp]: "\<not> isWorkingState th_closed"
  by (simp add: isWorkingState_def th_morning_def th_afternoon_def th_closed_def)

lemma countsAsStaff_effective:
  assumes "distinct (map emp_id (employees st))" and "e \<in> set (employees st)"
    and "\<not> bareWorkingTagOfPartTimer st day e"
  shows "countsAsStaff getDay st day e =
           ((emp_type e = PartTime \<or> emp_branch e = selectedBranch st)
            \<and> isWorkingState (getShiftValue getDay st (emp_id e) day))"
proof -
  have f: "find (\<lambda>x. emp_id x = emp_id e) (employees st) = Some e"
    using assms(1,2) by (rule find_distinct_id)
  show ?thesis
    using assms(3)
    by (cases "emp_type e")
       (auto simp: countsAsStaff_def getShiftValue_def f Let_def bareWorkingTagOfPartTimer_def
                   isWorkingState_def [symmetric]
             split: option.splits ShiftEntry.splits)
qed

lemma reachable_run: "reachable getDay st \<Longrightarrow> reachable getDay (run getDay actions st)"
  unfolding run_def
  by (induction actions arbitrary: st) (simp_all add: reachable_step)

section \<open>The claims\<close>

text \<open>
  C1, at the input where the code departs from it. The part-time employee works the
  morning of Monday the 2nd in the first branch, the first branch is the one viewed and
  the day is not a clinic day off. Changing that shift to the afternoon, still in the
  first branch, is blocked: the state is unchanged but for the alert, which names the
  first branch as the branch in conflict with itself.
\<close>

theorem handleShiftChange_same_branch_blocked:
  "selectedBranch mondayBooked = initialBranches ! 0
   \<and> \<not> isClinicDayOffCell june2025 mondayBooked 2
   \<and> lookupShift (monthlySchedule mondayBooked) (js ''2025-06-02'') (js ''pte1'')
       = Some (WorkingShift th_morning (initialBranches ! 0))
   \<and> handleShiftChange june2025 (js ''pte1'') 2 th_afternoon mondayBooked
       = mondayBooked\<lparr>modal := Some (PartTimeAlert (initialBranches ! 0) (initialBranches ! 0))\<rparr>"
  by (simp add: eval_defs)

text \<open>
  C2. On a day whose weekday is the configured clinic day off, and that setting is not
  the "none" sentinel, \<open>getShiftValue\<close> returns the clinic-closed tag for every employee
  of the roster, whatever schedule is stored and whatever branch is viewed.
\<close>

theorem getShiftValue_clinic_closed:
  assumes "employeeId \<in> emp_id ` set (employees st)"
    and "at_index dayNames (getDay (currentYear st) (currentMonth st) day) = Some (clinicDayOff st)"
    and "clinicDayOff st \<noteq> th_none"
  shows "getShiftValue getDay (st\<lparr>monthlySchedule := schedule, selectedBranch := branch\<rparr>)
           employeeId day = th_closed"
proof -
  obtain e where "find (\<lambda>e. emp_id e = employeeId) (employees st) = Some e"
    using find_id_Some [OF assms(1)] by blast
  moreover have "isClinicDayOffCell getDay st day"
    using assms(2,3) by (simp add: isClinicDayOffCell_def)
  ultimately show ?thesis
    by (simp add: getShiftValue_def)
qed

theorem getShiftValue_clinic_closed_witness:
  "js ''pte1'' \<in> emp_id ` set (employees staffed)
   \<and> at_index dayNames (june2025 (currentYear staffed) (currentMonth staffed) 1)
       = Some (clinicDayOff staffed)
   \<and> clinicDayOff staffed \<noteq> th_none
   \<and> getShiftValue june2025
       (staffed\<lparr>monthlySchedule :=
                  [(js ''2025-06-01'', [(js ''pte1'', WorkingShift th_morning (initialBranches ! 0))])],
                selectedBranch := initialBranches ! 0\<rparr>)
       (js ''pte1'') 1 = th_closed"
proof -
  have h1: "js ''pte1'' \<in> emp_id ` set (employees staffed)"
    by (simp add: eval_defs)
  have h2: "at_index dayNames (june2025 (currentYear staffed) (currentMonth staffed) 1)
              = Some (clinicDayOff staffed)"
    by (simp add: eval_defs)
  have h3: "clinicDayOff staffed \<noteq> th_none"
    by (simp add: eval_defs)
  show ?thesis
    using h1 h2 h3 getShiftValue_clinic_closed [where getDay = june2025 and day = 1, OF h1 h2 h3] by blast
qed

text \<open>
  C3. For an employee of the roster, on a day whose weekday is the configured clinic day
  off (not the "none" sentinel): a value other than clinic-closed leaves the schedule
  as it is and opens the clinic day off alert, whose message depends on nothing but the
  name of the day off; the value clinic-closed is stored as a bare tag. Nothing is
  assumed about the type of the employee or about the entries stored, so the part-time
  rule has no say once this gate applies.
\<close>

theorem handleShiftChange_clinic_day_off_gate:
  assumes "employeeId \<in> emp_id ` set (employees st)"
    and "at_index dayNames (getDay (currentYear st) (currentMonth st) day) = Some (clinicDayOff st)"
    and "clinicDayOff st \<noteq> th_none"
  shows "(val \<noteq> th_closed \<longrightarrow>
            handleShiftChange getDay employeeId day val st
              = st\<lparr>modal := Some (ClinicDayOffAlert (clinicDayOff st))\<rparr>
            \<and> monthlySchedule (handleShiftChange getDay employeeId day val st) = monthlySchedule st)
       \<and> (val = th_closed \<longrightarrow>
            handleShiftChange getDay employeeId day val st
              = st\<lparr>monthlySchedule :=
                     setShiftEntry (ensureDate (monthlySchedule st)
                         (dateKeyOf (currentYear st) (currentMonth st) day))
                       (dateKeyOf (currentYear st) (currentMonth st) day) employeeId
                       (BaseShift th_closed)\<rparr>
            \<and> lookupShift (monthlySchedule (handleShiftChange getDay employeeId day val st))
                 (dateKeyOf (currentYear st) (currentMonth st) day) employeeId
               = Some (BaseShift th_closed))"
proof -
  obtain e where e: "find (\<lambda>e. emp_id e = employeeId) (employees st) = Some e"
    using find_id_Some [OF assms(1)] by blast
  have closed: "isClinicDayOffCell getDay st day"
    using assms(2,3) by (simp add: isClinicDayOffCell_def)
  have idx: "dayNames ! getDay (currentYear st) (currentMonth st) day = clinicDayOff st"
    using assms(2) by (simp add: at_index_def split: if_splits)
  show ?thesis
    using e closed idx
    by (simp add: handleShiftChange_def Let_def lookupShift_setShiftEntry)
qed

theorem handleShiftChange_clinic_day_off_gate_witness:
  "js ''pte1'' \<in> emp_id ` set (employees staffed)
   \<and> at_index dayNames (june2025 (currentYear staffed) (currentMonth staffed) 1)
       = Some (clinicDayOff staffed)
   \<and> clinicDayOff staffed \<noteq> th_none
   \<and> th_morning \<noteq> th_closed
   \<and> handleShiftChange june2025 (js ''pte1'') 1 th_morning staffed
       = staffed\<lparr>modal := Some (ClinicDayOffAlert (clinicDayOff staffed))\<rparr>
   \<and> lookupShift (monthlySchedule (handleShiftChange june2025 (js ''pte1'') 1 th_closed staffed))
        (dateKeyOf (currentYear staffed) (currentMonth staffed) 1) (js ''pte1'')
       = Some (BaseShift th_closed)"
proof -
  have h1: "js ''pte1'' \<in> emp_id ` set (employees staffed)"
    by (simp add: eval_defs)
  have h2: "at_index dayNames (june2025 (currentYear staffed) (currentMonth staffed) 1)
              = Some (clinicDayOff staffed)"
    by (simp add: eval_defs)
  have h3: "clinicDayOff staffed \<noteq> th_none"
    by (simp add: eval_defs)
  have h4: "th_morning \<noteq> th_closed"
    by (simp add: th_morning_def th_closed_def)
  show ?thesis
    using h1 h2 h3 h4
      handleShiftChange_clinic_day_off_gate
        [where getDay = june2025 and day = 1 and val = th_morning, OF h1 h2 h3]
      handleShiftChange_clinic_day_off_gate
        [where getDay = june2025 and day = 1 and val = th_closed, OF h1 h2 h3]
    by blast
qed

text \<open>
  C4. When the first employee of the roster with the id is part-time, the day is not a
  clinic day off and the value is day off, leave, sick or empty, \<open>handleShiftChange\<close>
  stores the value as a bare tag for the employee on the date, whatever was stored there
  before and whatever branch is viewed; \<open>getShiftValue\<close> then returns that value in
  every viewed branch.
\<close>

theorem handleShiftChange_part_time_non_working:
  assumes "find (\<lambda>e. emp_id e = employeeId) (employees st) = Some employee"
    and "emp_type employee = PartTime"
    and "\<not> isClinicDayOffCell getDay st day"
    and "val = th_dayoff \<or> val = th_leave \<or> val = th_sick \<or> val = []"
  shows "lookupShift (monthlySchedule (handleShiftChange getDay employeeId day val st))
           (dateKeyOf (currentYear st) (currentMonth st) day) employeeId = Some (BaseShift val)
       \<and> (\<forall>branch. getShiftValue getDay
                     ((handleShiftChange getDay employeeId day val st)\<lparr>selectedBranch := branch\<rparr>)
                     employeeId day = val)"
proof -
  have id: "emp_id employee = employeeId"
    using assms(1) by (auto simp: find_Some_iff)
  have nw: "val \<noteq> th_morning" "val \<noteq> th_afternoon"
    using assms(4)
    by (auto simp: th_morning_def th_afternoon_def th_dayoff_def th_leave_def th_sick_def)
  have changed: "handleShiftChange getDay employeeId day val st
      = st\<lparr>monthlySchedule :=
             setShiftEntry (ensureDate (monthlySchedule st)
                 (dateKeyOf (currentYear st) (currentMonth st) day))
               (dateKeyOf (currentYear st) (currentMonth st) day) employeeId (BaseShift val)\<rparr>"
    using assms(1,2,3) nw by (simp add: handleShiftChange_def Let_def)
  show ?thesis
    unfolding changed using assms(1,2,3) id
    by (simp add: getShiftValue_def Let_def lookupShift_setShiftEntry)
qed

theorem handleShiftChange_part_time_non_working_witness:
  "find (\<lambda>e. emp_id e = js ''pte1'') (employees (mondayBooked\<lparr>selectedBranch := initialBranches ! 1\<rparr>))
     = Some \<lparr>emp_id = js ''pte1'', emp_name = js ''P'', emp_position = js ''staff'',
             emp_branch = th_parttime, emp_type = PartTime\<rparr>
   \<and> \<not> isClinicDayOffCell june2025 (mondayBooked\<lparr>selectedBranch := initialBranches ! 1\<rparr>) 2
   \<and> lookupShift (monthlySchedule mondayBooked) (js ''2025-06-02'') (js ''pte1'')
       = Some (WorkingShift th_morning (initialBranches ! 0))
   \<and> getShiftValue june2025
       ((handleShiftChange june2025 (js ''pte1'') 2 th_sick
           (mondayBooked\<lparr>selectedBranch := initialBranches ! 1\<rparr>))\<lparr>selectedBranch := initialBranches ! 0\<rparr>)
       (js ''pte1'') 2 = th_sick
   \<and> getShiftValue june2025
       ((handleShiftChange june2025 (js ''pte1'') 2 th_sick
           (mondayBooked\<lparr>selectedBranch := initialBranches ! 1\<rparr>))\<lparr>selectedBranch := initialBranches ! 1\<rparr>)
       (js ''pte1'') 2 = th_sick"
proof -
  let ?st = "mondayBooked\<lparr>selectedBranch := initialBranches ! 1\<rparr>"
  let ?p = "\<lparr>emp_id = js ''pte1'', emp_name = js ''P'', emp_position = js ''staff'',
             emp_branch = th_parttime, emp_type = PartTime\<rparr>"
  have h1: "find (\<lambda>e. emp_id e = js ''pte1'') (employees ?st) = Some ?p"
    by (simp add: eval_defs)
  have h2: "emp_type ?p = PartTime"
    by simp
  have h3: "\<not> isClinicDayOffCell june2025 ?st 2"
    by (simp add: eval_defs)
  have h4: "th_sick = th_dayoff \<or> th_sick = th_leave \<or> th_sick = th_sick \<or> th_sick = []"
    by simp
  have before: "lookupShift (monthlySchedule mondayBooked) (js ''2025-06-02'') (js ''pte1'')
       = Some (WorkingShift th_morning (initialBranches ! 0))"
    by (simp add: eval_defs)
  show ?thesis
    using h1 h3 before handleShiftChange_part_time_non_working [OF h1 h2 h3 h4]
    by blast
qed

text \<open>
  C5. In every state the application reaches, the schedule holds, for an employee id and
  a date, at most one working shift object (which names one branch). This holds for every
  employee id, part-time or not: no operation ever leaves a key twice in the schedule.
\<close>

theorem reachable_single_working_assignment:
  "reachable getDay st \<Longrightarrow>
   length (workingAssignments (monthlySchedule st) dateKey employeeId) \<le> 1"
proof -
  assume "reachable getDay st"
  then have "distinctKeys (monthlySchedule st)" by (rule reachable_distinctKeys)
  then have "length (storedEntries (monthlySchedule st) dateKey employeeId) \<le> Suc 0"
    by (rule storedEntries_le_one)
  moreover have "length (workingAssignments (monthlySchedule st) dateKey employeeId)
      \<le> length (storedEntries (monthlySchedule st) dateKey employeeId)"
    by (simp add: workingAssignments_def)
  ultimately show ?thesis by simp
qed

theorem reachable_single_working_assignment_witness:
  "reachable june2025 mondayBooked
   \<and> workingAssignments (monthlySchedule mondayBooked) (js ''2025-06-02'') (js ''pte1'')
       = [WorkingShift th_morning (initialBranches ! 0)]
   \<and> length (workingAssignments (monthlySchedule mondayBooked) (js ''2025-06-02'') (js ''pte1'')) \<le> 1"
proof -
  have "reachable june2025 staffed"
    unfolding staffed_def by (rule reachable_run [OF reachable_initial])
  then have h: "reachable june2025 mondayBooked"
    unfolding mondayBooked_def by (rule reachable_run)
  have w: "workingAssignments (monthlySchedule mondayBooked) (js ''2025-06-02'') (js ''pte1'')
       = [WorkingShift th_morning (initialBranches ! 0)]"
    by (simp add: eval_defs workingAssignments_def storedEntries_def)
  show ?thesis
    using h w reachable_single_working_assignment [OF h] by blast
qed

text \<open>
  C6. Confirming the deletion of an employee removes every employee with that id from
  the roster and leaves the schedule without an entry for that id on any date; a date
  whose entries all belonged to that id is removed, no date is left with an empty inner
  mapping, and the entries of every other employee id are what they were.
\<close>

theorem delete_employee_cascade:
  "employees (onConfirm (handleDeleteEmployee employeeId st))
      = filter (\<lambda>emp. emp_id emp \<noteq> employeeId) (employees st)
   \<and> employeeId \<notin> emp_id ` set (employees (onConfirm (handleDeleteEmployee employeeId st)))
   \<and> (\<forall>d. lookupShift (monthlySchedule (onConfirm (handleDeleteEmployee employeeId st))) d employeeId
            = None)
   \<and> (\<forall>d inner. map_of (monthlySchedule st) d = Some inner \<and> AList.delete employeeId inner = []
         \<longrightarrow> map_of (monthlySchedule (onConfirm (handleDeleteEmployee employeeId st))) d = None)
   \<and> (\<forall>d. map_of (monthlySchedule (onConfirm (handleDeleteEmployee employeeId st))) d \<noteq> Some [])
   \<and> (\<forall>d e. e \<noteq> employeeId \<longrightarrow>
         lookupShift (monthlySchedule (onConfirm (handleDeleteEmployee employeeId st))) d e
           = lookupShift (monthlySchedule st) d e)"
proof -
  have deleted: "onConfirm (handleDeleteEmployee employeeId st)
      = st\<lparr>employees := filter (\<lambda>emp. emp_id emp \<noteq> employeeId) (employees st),
           monthlySchedule := cleanUpSchedule employeeId (monthlySchedule st),
           modal := None\<rparr>"
    by (simp add: onConfirm_def handleDeleteEmployee_def)
  show ?thesis
    unfolding deleted
    by (auto simp: lookupShift_cleanUpSchedule map_of_cleanUpSchedule split: option.splits)
qed

theorem delete_employee_cascade_witness:
  "js ''emp1'' \<noteq> js ''pte1''
   \<and> lookupShift (monthlySchedule mondayBooked) (js ''2025-06-02'') (js ''emp1'')
       = Some (BaseShift th_morning)
   \<and> lookupShift (monthlySchedule (onConfirm (handleDeleteEmployee (js ''pte1'') mondayBooked)))
        (js ''2025-06-02'') (js ''emp1'')
       = lookupShift (monthlySchedule mondayBooked) (js ''2025-06-02'') (js ''emp1'')
   \<and> map_of (monthlySchedule partTimerBooked) (js ''2025-06-02'')
       = Some [(js ''pte1'', WorkingShift th_morning (initialBranches ! 0))]
   \<and> AList.delete (js ''pte1'') [(js ''pte1'', WorkingShift th_morning (initialBranches ! 0))] = []
   \<and> map_of (monthlySchedule (onConfirm (handleDeleteEmployee (js ''pte1'') partTimerBooked)))
        (js ''2025-06-02'') = None"
proof -
  have h1: "js ''emp1'' \<noteq> js ''pte1''"
    by (simp add: js_def)
  have h2: "lookupShift (monthlySchedule mondayBooked) (js ''2025-06-02'') (js ''emp1'')
       = Some (BaseShift th_morning)"
    by (simp add: eval_defs)
  have h3: "map_of (monthlySchedule partTimerBooked) (js ''2025-06-02'')
       = Some [(js ''pte1'', WorkingShift th_morning (initialBranches ! 0))]"
    by (simp add: eval_defs)
  have h4: "AList.delete (js ''pte1'') [(js ''pte1'', WorkingShift th_morning (initialBranches ! 0))] = []"
    by (simp add: AList.delete_eq)
  show ?thesis
    using h1 h2 h3 h4
      delete_employee_cascade [of "js ''pte1''" mondayBooked]
      delete_employee_cascade [of "js ''pte1''" partTimerBooked]
    by blast
qed

text \<open>
  C7, as the code has it. On a clinic day off the daily count is 0 whatever is stored.
  When the ids of the roster are distinct and no part-time employee has a bare morning or
  afternoon tag stored on the day, the daily count is the number of employees displayed
  in the viewed branch (the part-time employees and the full-time employees of that
  branch) whose effective shift there is a working state.
\<close>

theorem getDailyStaffCount_visible_roster:
  "(isClinicDayOffCell getDay st day \<longrightarrow> getDailyStaffCount getDay st day = 0)
   \<and> (distinct (map emp_id (employees st))
        \<and> \<not> list_ex (bareWorkingTagOfPartTimer st day) (employees st)
      \<longrightarrow> getDailyStaffCount getDay st day = visibleHeadcount getDay st day)"
proof (intro conjI impI)
  assume "isClinicDayOffCell getDay st day"
  then show "getDailyStaffCount getDay st day = 0"
    by (simp add: getDailyStaffCount_filter countsAsStaff_def Let_def)
next
  assume a: "distinct (map emp_id (employees st))
        \<and> \<not> list_ex (bareWorkingTagOfPartTimer st day) (employees st)"
  then have "\<forall>e \<in> set (employees st). countsAsStaff getDay st day e =
           ((emp_type e = PartTime \<or> emp_branch e = selectedBranch st)
            \<and> isWorkingState (getShiftValue getDay st (emp_id e) day))"
    by (auto simp: list_ex_iff countsAsStaff_effective)
  then have "filter (countsAsStaff getDay st day) (employees st)
      = filter (\<lambda>e. (emp_type e = PartTime \<or> emp_branch e = selectedBranch st)
            \<and> isWorkingState (getShiftValue getDay st (emp_id e) day)) (employees st)"
    by (intro filter_cong) auto
  then show "getDailyStaffCount getDay st day = visibleHeadcount getDay st day"
    by (simp add: getDailyStaffCount_filter visibleHeadcount_def displayedEmployees_def)
qed

theorem getDailyStaffCount_visible_roster_witness:
  "isClinicDayOffCell june2025 mondayBooked 1
   \<and> getDailyStaffCount june2025 mondayBooked 1 = 0
   \<and> distinct (map emp_id (employees mondayBooked))
   \<and> \<not> list_ex (bareWorkingTagOfPartTimer mondayBooked 2) (employees mondayBooked)
   \<and> getDailyStaffCount june2025 mondayBooked 2 = visibleHeadcount june2025 mondayBooked 2
   \<and> visibleHeadcount june2025 mondayBooked 2 = 2"
proof -
  have h1: "isClinicDayOffCell june2025 mondayBooked 1"
    by (simp add: eval_defs)
  have h2: "distinct (map emp_id (employees mondayBooked))"
    by (simp add: eval_defs)
  have h3: "\<not> list_ex (bareWorkingTagOfPartTimer mondayBooked 2) (employees mondayBooked)"
    by (simp add: eval_defs bareWorkingTagOfPartTimer_def)
  have h4: "visibleHeadcount june2025 mondayBooked 2 = 2"
    by (simp add: eval_defs visibleHeadcount_def displayedEmployees_def isWorkingState_def)
  show ?thesis
    using h1 h2 h3 h4
      getDailyStaffCount_visible_roster [of june2025 mondayBooked 1]
      getDailyStaffCount_visible_roster [of june2025 mondayBooked 2]
    by blast
qed

text \<open>
  C7, as the specification states it, fails: a full-time employee of the first branch
  works the morning of Monday the 2nd; viewed from the second branch the effective shift
  of that employee is still the morning, so the count the specification describes is 1,
  and the daily count of the code is 0.
\<close>

theorem getDailyStaffCount_not_effectiveHeadcount:
  "getDailyStaffCount june2025 (mondayBooked\<lparr>selectedBranch := initialBranches ! 1\<rparr>) 2 = 0
   \<and> effectiveHeadcount june2025 (mondayBooked\<lparr>selectedBranch := initialBranches ! 1\<rparr>) 2 = 1
   \<and> getDailyStaffCount june2025 (mondayBooked\<lparr>selectedBranch := initialBranches ! 1\<rparr>) 2
       \<noteq> effectiveHeadcount june2025 (mondayBooked\<lparr>selectedBranch := initialBranches ! 1\<rparr>) 2"
  by (simp add: eval_defs getDailyStaffCount_def countsAsStaff_def effectiveHeadcount_def
        isWorkingState_def)

text \<open>
  C8. \<open>handleAddEmployee\<close> changes nothing but the modal, which shows the alert, when the
  name or the position of the draft is empty, or the draft is full-time and its branch is
  empty. When the draft passes the check, exactly one employee is appended to the roster:
  its id is \<open>emp\<close> (full-time) or \<open>pte\<close> (part-time) followed by the number of employees of
  that type plus one, and its branch is the pool sentinel when it is part-time. Ids are
  not unique: from the initial state, adding two employees of one type, deleting the
  first and adding a third of that type gives a roster whose ids are not distinct.
\<close>

theorem handleAddEmployee_contract:
  "(new_name (newEmployee st) = [] \<or> new_position (newEmployee st) = []
      \<or> (new_type (newEmployee st) = FullTime \<and> new_branch (newEmployee st) = [])
    \<longrightarrow> handleAddEmployee st = st\<lparr>modal := Some IncompleteAlert\<rparr>)
   \<and> (trim (new_name (newEmployee st)) \<noteq> [] \<and> trim (new_position (newEmployee st)) \<noteq> []
        \<and> (new_type (newEmployee st) = PartTime \<or> trim (new_branch (newEmployee st)) \<noteq> [])
      \<longrightarrow> employees (handleAddEmployee st)
            = employees st @
                [\<lparr>emp_id = (if new_type (newEmployee st) = FullTime then js ''emp'' else js ''pte'')
                            @ numberToString (int (length (filter
                                (\<lambda>e. emp_type e = new_type (newEmployee st)) (employees st)) + 1)),
                  emp_name = new_name (newEmployee st),
                  emp_position = new_position (newEmployee st),
                  emp_branch = (if new_type (newEmployee st) = PartTime then th_parttime
                                else new_branch (newEmployee st)),
                  emp_type = new_type (newEmployee st)\<rparr>]
          \<and> monthlySchedule (handleAddEmployee st) = monthlySchedule st
          \<and> modal (handleAddEmployee st) = modal st)
   \<and> (\<exists>d1 d2 d3 i.
          new_type d1 = new_type d3 \<and> new_type d2 = new_type d3
          \<and> \<not> distinct (map emp_id (employees
                (run getDay [SetNewEmployee d1, AddEmployee, SetNewEmployee d2, AddEmployee,
                             DeleteEmployee i, Confirm, SetNewEmployee d3, AddEmployee]
                   (initialApp year month)))))"
proof (intro conjI impI)
  assume "new_name (newEmployee st) = [] \<or> new_position (newEmployee st) = []
      \<or> (new_type (newEmployee st) = FullTime \<and> new_branch (newEmployee st) = [])"
  then show "handleAddEmployee st = st\<lparr>modal := Some IncompleteAlert\<rparr>"
    by (auto simp: handleAddEmployee_def Let_def trim_def)
next
  assume ok: "trim (new_name (newEmployee st)) \<noteq> [] \<and> trim (new_position (newEmployee st)) \<noteq> []
        \<and> (new_type (newEmployee st) = PartTime \<or> trim (new_branch (newEmployee st)) \<noteq> [])"
  then show "employees (handleAddEmployee st)
            = employees st @
                [\<lparr>emp_id = (if new_type (newEmployee st) = FullTime then js ''emp'' else js ''pte'')
                            @ numberToString (int (length (filter
                                (\<lambda>e. emp_type e = new_type (newEmployee st)) (employees st)) + 1)),
                  emp_name = new_name (newEmployee st),
                  emp_position = new_position (newEmployee st),
                  emp_branch = (if new_type (newEmployee st) = PartTime then th_parttime
                                else new_branch (newEmployee st)),
                  emp_type = new_type (newEmployee st)\<rparr>]"
    by (simp add: handleAddEmployee_def Let_def)
  from ok show "monthlySchedule (handleAddEmployee st) = monthlySchedule st"
    by (simp add: handleAddEmployee_def Let_def)
  from ok show "modal (handleAddEmployee st) = modal st"
    by (simp add: handleAddEmployee_def Let_def)
next
  have "new_type fullTimeDraft = new_type fullTimeDraft \<and> new_type fullTimeDraft = new_type fullTimeDraft
          \<and> \<not> distinct (map emp_id (employees
                (run getDay [SetNewEmployee fullTimeDraft, AddEmployee,
                             SetNewEmployee fullTimeDraft, AddEmployee,
                             DeleteEmployee (js ''emp1''), Confirm,
                             SetNewEmployee fullTimeDraft, AddEmployee]
                   (initialApp year month))))"
    by (simp add: run_def fullTimeDraft_def initialApp_def handleAddEmployee_def Let_def
          handleDeleteEmployee_def onConfirm_def initialBranches_def js_def numberToString_def
          digits.simps trim_def isWhiteSpace_def)
  then show "\<exists>d1 d2 d3 i.
          new_type d1 = new_type d3 \<and> new_type d2 = new_type d3
          \<and> \<not> distinct (map emp_id (employees
                (run getDay [SetNewEmployee d1, AddEmployee, SetNewEmployee d2, AddEmployee,
                             DeleteEmployee i, Confirm, SetNewEmployee d3, AddEmployee]
                   (initialApp year month))))"
    by blast
qed

theorem handleAddEmployee_contract_witness:
  "new_name (newEmployee (initialApp 2025 5)) = []
   \<and> handleAddEmployee (initialApp 2025 5) = (initialApp 2025 5)\<lparr>modal := Some IncompleteAlert\<rparr>
   \<and> trim (new_name partTimeDraft) \<noteq> [] \<and> trim (new_position partTimeDraft) \<noteq> []
   \<and> new_type partTimeDraft = PartTime
   \<and> employees (handleAddEmployee ((initialApp 2025 5)\<lparr>newEmployee := partTimeDraft\<rparr>))
       = [\<lparr>emp_id = js ''pte1'', emp_name = js ''P'', emp_position = js ''staff'',
            emp_branch = th_parttime, emp_type = PartTime\<rparr>]"
proof -
  let ?st = "(initialApp 2025 5)\<lparr>newEmployee := partTimeDraft\<rparr>"
  have h1: "new_name (newEmployee (initialApp 2025 5)) = []"
    by (simp add: initialApp_def)
  have h2: "trim (new_name partTimeDraft) \<noteq> [] \<and> trim (new_position partTimeDraft) \<noteq> []
        \<and> new_type partTimeDraft = PartTime"
    by (simp add: eval_defs)
  then have h2': "trim (new_name (newEmployee ?st)) \<noteq> [] \<and> trim (new_position (newEmployee ?st)) \<noteq> []
        \<and> (new_type (newEmployee ?st) = PartTime \<or> trim (new_branch (newEmployee ?st)) \<noteq> [])"
    by simp
  have rejected: "handleAddEmployee (initialApp 2025 5)
      = (initialApp 2025 5)\<lparr>modal := Some IncompleteAlert\<rparr>"
    using h1 handleAddEmployee_contract [where st = "initialApp 2025 5"] by blast
  have "employees (handleAddEmployee ?st)
      = employees ?st @
       [\<lparr>emp_id = (if new_type (newEmployee ?st) = FullTime then js ''emp'' else js ''pte'')
                   @ numberToString (int (length (filter
                        (\<lambda>e. emp_type e = new_type (newEmployee ?st)) (employees ?st)) + 1)),
         emp_name = new_name (newEmployee ?st),
         emp_position = new_position (newEmployee ?st),
         emp_branch = (if new_type (newEmployee ?st) = PartTime then th_parttime
                       else new_branch (newEmployee ?st)),
         emp_type = new_type (newEmployee ?st)\<rparr>]"
    using h2' handleAddEmployee_contract [where st = ?st] by blast
  also have "\<dots> = [\<lparr>emp_id = js ''pte1'', emp_name = js ''P'', emp_position = js ''staff'',
            emp_branch = th_parttime, emp_type = PartTime\<rparr>]"
    by (simp add: eval_defs)
  finally show ?thesis
    using h1 h2 rejected by blast
qed

text \<open>
  C9, at an input where the code departs from it. The document holds, for employee
  \<open>emp1\<close>, the morning on 2025-06-02 and leave on 2025-06-03, and its \<open>date\<close> field is
  2025-06-02. The loader files both entries under the \<open>date\<close> field of the document, the
  second over the first: the loaded schedule has leave for \<open>emp1\<close> on 2025-06-02 and
  nothing on 2025-06-03.
\<close>

theorem loadScheduleFromFirestore_files_under_doc_date:
  "monthlySchedule (loadScheduleFromFirestore [exampleDoc] (initialApp 2025 5))
     = [(js ''2025-06-02'', [(js ''emp1'', BaseShift th_leave)])]
   \<and> lookupShift (monthlySchedule (loadScheduleFromFirestore [exampleDoc] (initialApp 2025 5)))
        (js ''2025-06-02'') (js ''emp1'') = Some (BaseShift th_leave)
   \<and> lookupShift (monthlySchedule (loadScheduleFromFirestore [exampleDoc] (initialApp 2025 5)))
        (js ''2025-06-03'') (js ''emp1'') = None"
  by (simp add: eval_defs exampleDoc_def loadScheduleFromFirestore_def decodeSchedule_def
        decodeDays_def)

text \<open>
  C10. Both schedule operations are total over employee ids: for an id that no employee
  of the roster carries, \<open>getShiftValue\<close> returns the empty tag, whatever the day and
  the viewed branch, and \<open>handleShiftChange\<close> returns the state it was given.
\<close>

theorem unknown_employee_total:
  "employeeId \<notin> emp_id ` set (employees st) \<Longrightarrow>
   getShiftValue getDay st employeeId day = []
   \<and> handleShiftChange getDay employeeId day val st = st"
  by (simp add: getShiftValue_def handleShiftChange_def find_id_None [symmetric])

theorem unknown_employee_total_witness:
  "js ''ghost'' \<notin> emp_id ` set (employees staffed)
   \<and> getShiftValue june2025 staffed (js ''ghost'') 2 = []
   \<and> handleShiftChange june2025 (js ''ghost'') 2 th_morning staffed = staffed"
proof -
  have h: "js ''ghost'' \<notin> emp_id ` set (employees staffed)"
    by (simp add: eval_defs)
  show ?thesis
    using h unknown_employee_total [OF h, of june2025 2 th_morning] by blast
qed

end
